theory Spec2Isabelle
  imports Main "HOL-Library.Word"
begin

unbundle bit_operations_syntax

section \<open>Values shared by the two drivers\<close>

type_synonym byte = "8 word"
type_synonym uint16 = "16 word"
type_synonym uint64 = "64 word"

text \<open>
  Go errors are values.  The constructors follow the ways the two packages build them:
  an error handed up by the bus or the file system, \<open>fmt.Errorf("<msg>: %w", err)\<close>,
  \<open>fmt.Errorf("<msg> CRC8 failed on: %v", group)\<close>, a fixed message, and
  \<open>fmt.Errorf("pmsa0031: Error code %x", code)\<close>.
\<close>

datatype error =
    IOError string
  | Errorf string error
  | CRC8Error string "byte list"
  | Msg string
  | ErrorCode byte

text \<open>
  A call either returns a value, returns an error value, or panics (an index or a slice
  bound out of range stops the program).
\<close>

datatype 'a outcome = is_Value: Value 'a | is_Failure: Failure error | is_Panic: Panic

text \<open>\<open>word\<close>: 16 bits from the byte stream, starting at index \<open>i\<close>; indexing past
  the end of the slice panics.\<close>

definition word :: "byte list \<Rightarrow> nat \<Rightarrow> uint16 option" where
  "word ds i =
     (if i + 1 < length ds
      then Some (push_bit 8 (ucast (ds ! i)) + ucast (ds ! (i + 1)))
      else None)"

text \<open>\<open>a[lo:hi]\<close> on a fixed-size array with constant bounds (checked when compiling).\<close>

definition sub :: "byte list \<Rightarrow> nat \<Rightarrow> nat \<Rightarrow> byte list" where
  "sub a lo hi = take (hi - lo) (drop lo a)"

text \<open>
  A byte slice handed in by a caller: its elements and the rest of its backing array up
  to the capacity.  \<open>s[lo:hi]\<close> is in range up to the capacity, not the length.
\<close>

record slice =
  elems :: "byte list"
  room :: "byte list"

definition reslice :: "slice \<Rightarrow> nat \<Rightarrow> nat \<Rightarrow> byte list option" where
  "reslice s lo hi =
     (if lo \<le> hi \<and> hi \<le> length (elems s) + length (room s)
      then Some (take (hi - lo) (drop lo (elems s @ room s)))
      else None)"

section \<open>The outside world: bus, clock and files\<close>

text \<open>
  The bus is a capability \<open>Tx(addr, w, r)\<close>: it writes \<open>w\<close>, then reads into the buffer
  \<open>r\<close>, here given by its length, and answers with an error or with the bytes the
  device delivered.  Its state is of any type \<open>'b\<close>.
\<close>

type_synonym 'b Bus = "'b \<Rightarrow> uint16 \<Rightarrow> byte list \<Rightarrow> nat \<Rightarrow> (error + byte list) \<times> 'b"

record 'b i2c_Dev =
  Bus :: "'b Bus"
  Addr :: uint16

datatype event =
    EvTx uint16 "byte list" nat
  | EvSleep int
  | EvReadFile string
  | EvWriteFile string "byte list"

text \<open>
  The world holds the bus state, the files with the paths that can be written, the spare
  capacity of the buffer a file read returns, the clock as the sequence of its future
  readings (in nanoseconds) with the number of readings taken, and the calls made so far.
\<close>

record 'b world =
  bus :: 'b
  files :: "string \<Rightarrow> byte list option"
  writable :: "string \<Rightarrow> bool"
  slack :: nat
  ticks :: "nat \<Rightarrow> int"
  reads :: nat
  trace :: "event list"

text \<open>The read buffer is a zeroed array of \<open>n\<close> bytes that the transaction fills from
  the front.\<close>

definition fill :: "nat \<Rightarrow> byte list \<Rightarrow> byte list" where
  "fill n r = take n (r @ replicate n 0)"

definition Tx :: "'b i2c_Dev \<Rightarrow> byte list \<Rightarrow> nat \<Rightarrow> 'b world \<Rightarrow> (error + byte list) \<times> 'b world" where
  "Tx c w n s =
     (case Bus c (bus s) (Addr c) w n of
        (Inl e, b) \<Rightarrow> (Inl e, s\<lparr>bus := b, trace := trace s @ [EvTx (Addr c) w n]\<rparr>)
      | (Inr r, b) \<Rightarrow> (Inr (fill n r), s\<lparr>bus := b, trace := trace s @ [EvTx (Addr c) w n]\<rparr>))"

definition Sleep :: "int \<Rightarrow> 'b world \<Rightarrow> 'b world" where
  "Sleep d s = s\<lparr>trace := trace s @ [EvSleep d]\<rparr>"

definition time_Now :: "'b world \<Rightarrow> int \<times> 'b world" where
  "time_Now s = (ticks s (reads s), s\<lparr>reads := Suc (reads s)\<rparr>)"

text \<open>A \<open>Duration\<close> is a signed 64-bit count of nanoseconds; the difference of two
  instants saturates at its bounds.\<close>

definition time_Sub :: "int \<Rightarrow> int \<Rightarrow> int" where
  "time_Sub t u = max (- (2 ^ 63)) (min (2 ^ 63 - 1) (t - u))"

definition time_Since :: "int \<Rightarrow> 'b world \<Rightarrow> int \<times> 'b world" where
  "time_Since t s = (case time_Now s of (now, s') \<Rightarrow> (time_Sub now t, s'))"

definition ReadFile :: "string \<Rightarrow> 'b world \<Rightarrow> (error + slice) \<times> 'b world" where
  "ReadFile p s =
     (case files s p of
        None \<Rightarrow> (Inl (IOError ''no such file or directory''), s\<lparr>trace := trace s @ [EvReadFile p]\<rparr>)
      | Some bs \<Rightarrow> (Inr \<lparr>elems = bs, room = replicate (slack s) 0\<rparr>,
                    s\<lparr>trace := trace s @ [EvReadFile p]\<rparr>))"

text \<open>\<open>ioutil.WriteFile\<close>, with its error dropped as the only caller drops it.\<close>

definition WriteFile :: "string \<Rightarrow> byte list \<Rightarrow> 'b world \<Rightarrow> 'b world" where
  "WriteFile p bs s =
     (if writable s p
      then s\<lparr>files := (files s)(p := Some bs), trace := trace s @ [EvWriteFile p bs]\<rparr>
      else s\<lparr>trace := trace s @ [EvWriteFile p bs]\<rparr>)"

section \<open>The CRC-8 of the gas sensor\<close>

text \<open>
  Modelled from the spec: the CRC-8 routines \<open>MakeTable\<close> and \<open>Checksum\<close> come from a
  library outside the sources; they are the table-driven CRC-8 with the parameters the
  spec names (polynomial, initial value, reflection of input and output, final XOR).
  The \<open>Check\<close> and \<open>Name\<close> fields describe the parameter set and take no part in the
  computation.
\<close>

record Params =
  Poly :: byte
  Init :: byte
  RefIn :: bool
  RefOut :: bool
  XorOut :: byte
  Check :: byte
  Name :: string

record Table =
  params :: Params
  data :: "byte \<Rightarrow> byte"

fun shift_rounds :: "byte \<Rightarrow> nat \<Rightarrow> byte \<Rightarrow> byte" where
  "shift_rounds poly 0 crc = crc"
| "shift_rounds poly (Suc i) crc =
     shift_rounds poly i
       (if crc AND 0x80 \<noteq> 0 then push_bit 1 crc XOR poly else push_bit 1 crc)"

definition MakeTable :: "Params \<Rightarrow> Table" where
  "MakeTable p = \<lparr>params = p, data = (\<lambda>n. shift_rounds (Poly p) 8 n)\<rparr>"

definition Update :: "byte \<Rightarrow> byte list \<Rightarrow> Table \<Rightarrow> byte" where
  "Update crc ds table =
     (if RefIn (params table)
      then fold (\<lambda>d c. data table (c XOR word_reverse d)) ds crc
      else fold (\<lambda>d c. data table (c XOR d)) ds crc)"

definition Complete :: "byte \<Rightarrow> Table \<Rightarrow> byte" where
  "Complete crc table =
     (if RefOut (params table) then word_reverse crc XOR XorOut (params table)
      else crc XOR XorOut (params table))"

definition Checksum :: "byte list \<Rightarrow> Table \<Rightarrow> byte" where
  "Checksum ds table = Complete (Update (Init (params table)) ds table) table"

definition CRC8_SGP30 :: Table where
  "CRC8_SGP30 = MakeTable \<lparr>Poly = 0x31, Init = 0xFF, RefIn = False, RefOut = False,
     XorOut = 0x00, Check = 0xA1, Name = ''CRC-8/SGP30''\<rparr>"

definition checkCRC8 :: "byte list \<Rightarrow> bool" where
  "checkCRC8 ds \<longleftrightarrow> Checksum ds CRC8_SGP30 = 0x00"

section \<open>The particle sensor (pmsa003i)\<close>

definition PMSA003I_ADDR :: uint16 where
  "PMSA003I_ADDR = 0x12"

text \<open>The loop of \<open>checksum\<close>: \<open>cksum\<close> after the bytes at \<open>i, i+1, ...\<close> below
  \<open>len(data)-2\<close>; the bound is a signed integer, so a slice of fewer than two bytes
  is not read at all.\<close>

function cksum_loop :: "byte list \<Rightarrow> nat \<Rightarrow> uint16 \<Rightarrow> uint16" where
  "cksum_loop ds i cksum =
     (if int i < int (length ds) - 2
      then cksum_loop ds (i + 1) (cksum + ucast (ds ! i))
      else cksum)"
  by pat_completeness auto
termination
  by (relation "measure (\<lambda>(ds, i, cksum). length ds - i)") auto

definition checksum :: "byte list \<Rightarrow> bool option" where
  "checksum ds =
     (case word ds 0x1e of
        None \<Rightarrow> None
      | Some w \<Rightarrow> Some (w = cksum_loop ds 0 0))"

record Results =
  CfPm1 :: uint16
  CfPm2_5 :: uint16
  CfPm10 :: uint16
  EnvPm1 :: uint16
  EnvPm2_5 :: uint16
  EnvPm10 :: uint16
  Cnt0_3 :: uint16
  Cnt0_5 :: uint16
  Cnt1 :: uint16
  Cnt2_5 :: uint16
  Cnt5 :: uint16
  Cnt10 :: uint16
  Version :: byte

record 'b pmsa003i_Dev =
  pm_i2c :: "'b i2c_Dev"
  pm_err :: "error option"

text \<open>The thirteen fields decoded at their offsets; \<open>None\<close> when an index is out of
  range.\<close>

definition decode :: "byte list \<Rightarrow> Results option" where
  "decode ds =
     (case (word ds 0x04, word ds 0x06, word ds 0x08, word ds 0x0a, word ds 0x0c, word ds 0x0e) of
        (Some a, Some b, Some c, Some d, Some e, Some f) \<Rightarrow>
          (case (word ds 0x10, word ds 0x12, word ds 0x14, word ds 0x16, word ds 0x18, word ds 0x1a) of
             (Some g, Some h, Some i, Some j, Some k, Some l) \<Rightarrow>
               if 0x1c < length ds
               then Some \<lparr>CfPm1 = a, CfPm2_5 = b, CfPm10 = c, EnvPm1 = d, EnvPm2_5 = e,
                          EnvPm10 = f, Cnt0_3 = g, Cnt0_5 = h, Cnt1 = i, Cnt2_5 = j, Cnt5 = k,
                          Cnt10 = l, Version = ds ! 0x1c\<rparr>
               else None
           | _ \<Rightarrow> None)
      | _ \<Rightarrow> None)"

definition ReadSensor :: "'b pmsa003i_Dev \<Rightarrow> 'b world \<Rightarrow> Results outcome \<times> 'b world" where
  "ReadSensor d s =
     (case Tx (pm_i2c d) [] 32 s of
        (Inl e, s1) \<Rightarrow> (Failure (Errorf ''pmsa003i: Error while reading the sensor'' e), s1)
      | (Inr ds, s1) \<Rightarrow>
          (case word ds 0 of
             None \<Rightarrow> (Panic, s1)
           | Some start \<Rightarrow>
               if start \<noteq> 0x424d then (Failure (Msg ''pmsa003i: Bad start word''), s1)
               else (case checksum ds of
                  None \<Rightarrow> (Panic, s1)
                | Some ok \<Rightarrow>
                    if \<not> ok then (Failure (Msg ''pmsa003i: Bad checksum''), s1)
                    else if ds ! 0x1d \<noteq> 0x00 then (Failure (ErrorCode (ds ! 0x1d)), s1)
                    else (case decode ds of
                       None \<Rightarrow> (Panic, s1)
                     | Some res \<Rightarrow> (Value res, s1)))))"

definition pmsa003i_New :: "'b Bus \<Rightarrow> 'b world \<Rightarrow> 'b pmsa003i_Dev outcome \<times> 'b world" where
  "pmsa003i_New i s =
     (let d = \<lparr>pm_i2c = \<lparr>Bus = i, Addr = PMSA003I_ADDR\<rparr>, pm_err = None\<rparr> in
      case ReadSensor d s of
        (Value _, s1) \<Rightarrow> (Value d, s1)
      | (Failure e, s1) \<Rightarrow> (Failure e, s1)
      | (Panic, s1) \<Rightarrow> (Panic, s1))"

section \<open>The gas sensor (sgp30)\<close>

definition SGP30_ADDR :: uint16 where
  "SGP30_ADDR = 0x58"

text \<open>The driver handle.  Instants are clock readings; the zero value of \<open>lastSave\<close>
  is written 0 and is never read while \<open>baselineFile\<close> is empty.\<close>

record 'b Dev =
  i2c :: "'b i2c_Dev"
  baselineFile :: string
  baselineInterval :: int
  lastSave :: int
  err :: "error option"

definition GetSerialNumber :: "'b Dev \<Rightarrow> 'b world \<Rightarrow> uint64 outcome \<times> 'b world" where
  "GetSerialNumber d s =
     (case Tx (i2c d) [0x36, 0x82] 9 s of
        (Inl e, s1) \<Rightarrow> (Failure (Errorf ''sgp30: Error while reading serial number'' e), s1)
      | (Inr ds, s1) \<Rightarrow>
          if \<not> checkCRC8 (sub ds 0 3)
          then (Failure (CRC8Error ''sgp30: serial number word 1'' (sub ds 0 3)), s1)
          else if \<not> checkCRC8 (sub ds 3 6)
          then (Failure (CRC8Error ''sgp30: serial number word 2'' (sub ds 3 6)), s1)
          else if \<not> checkCRC8 (sub ds 6 9)
          then (Failure (CRC8Error ''sgp30: serial number word 3'' (sub ds 6 9)), s1)
          else (case (word ds 0, word ds 3, word ds 6) of
             (Some w0, Some w1, Some w2) \<Rightarrow>
               (Value (push_bit 24 (ucast w0) + push_bit 16 (ucast w1) + ucast w2), s1)
           | _ \<Rightarrow> (Panic, s1)))"

definition GetFeatures :: "'b Dev \<Rightarrow> 'b world \<Rightarrow> (byte \<times> byte) outcome \<times> 'b world" where
  "GetFeatures d s =
     (case Tx (i2c d) [0x20, 0x2f] 3 s of
        (Inl e, s1) \<Rightarrow> (Failure (Errorf ''sgp30: Error while reading features'' e), s1)
      | (Inr ds, s1) \<Rightarrow>
          if \<not> checkCRC8 (sub ds 0 3)
          then (Failure (CRC8Error ''sgp30: features'' (sub ds 0 3)), s1)
          else (Value (ds ! 0, ds ! 1), s1))"

definition StartMeasurements :: "'b Dev \<Rightarrow> 'b world \<Rightarrow> unit outcome \<times> 'b world" where
  "StartMeasurements d s =
     (case Tx (i2c d) [0x20, 0x03] 0 s of
        (Inl e, s1) \<Rightarrow> (Failure (Errorf ''sgp30: Error starting air quality measurements'' e), s1)
      | (Inr _, s1) \<Rightarrow> (Value (), s1))"

definition ReadBaseline :: "'b Dev \<Rightarrow> 'b world \<Rightarrow> byte list outcome \<times> 'b world" where
  "ReadBaseline d s =
     (case Tx (i2c d) [0x20, 0x15] 6 s of
        (Inl e, s1) \<Rightarrow> (Failure (Errorf ''sgp30: Error while reading baseline'' e), s1)
      | (Inr ds, s1) \<Rightarrow>
          if \<not> checkCRC8 (sub ds 0 3)
          then (Failure (CRC8Error ''sgp30: baseline word 1'' (sub ds 0 3)), s1)
          else if \<not> checkCRC8 (sub ds 3 6)
          then (Failure (CRC8Error ''sgp30: baseline word 2'' (sub ds 3 6)), s1)
          else (Value ds, s1))"

text \<open>The body of the autosave branch of \<open>ReadAirQuality\<close>, entered when a save is due;
  \<open>res\<close> is what the read returns afterwards.\<close>

definition autosave :: "'b Dev \<Rightarrow> 'b world \<Rightarrow> 'a outcome \<Rightarrow> 'a outcome \<times> 'b Dev \<times> 'b world" where
  "autosave d s res =
     (case time_Now s of
        (now, s1) \<Rightarrow>
          (let d1 = d\<lparr>lastSave := now\<rparr> in
           case ReadBaseline d1 s1 of
             (Failure e, s2) \<Rightarrow> (Failure (Errorf ''sgp30: Error while reading baseline'' e), d1, s2)
           | (Panic, s2) \<Rightarrow> (Panic, d1, s2)
           | (Value baseline, s2) \<Rightarrow> (res, d1, WriteFile (baselineFile d1) baseline s2)))"

definition ReadAirQuality ::
  "'b Dev \<Rightarrow> 'b world \<Rightarrow> (uint16 \<times> uint16) outcome \<times> 'b Dev \<times> 'b world" where
  "ReadAirQuality d s =
     (case Tx (i2c d) [0x20, 0x08] 0 s of
        (Inl e, s1) \<Rightarrow> (Failure (Errorf ''sgp30: Error while requesting air quality'' e), d, s1)
      | (Inr _, s1) \<Rightarrow>
          (case Tx (i2c d) [] 6 (Sleep 10000000 s1) of
             (Inl e, s2) \<Rightarrow> (Failure (Errorf ''sgp30: Error while reading air quality'' e), d, s2)
           | (Inr ds, s2) \<Rightarrow>
               if \<not> checkCRC8 (sub ds 0 3)
               then (Failure (CRC8Error ''sgp30: read air quality word 1'' (sub ds 0 3)), d, s2)
               else if \<not> checkCRC8 (sub ds 3 6)
               then (Failure (CRC8Error ''sgp30: read air quality word 2'' (sub ds 3 6)), d, s2)
               else
                 (let res = (case (word ds 0, word ds 3) of
                               (Some co2, Some tvoc) \<Rightarrow> Value (co2, tvoc)
                             | _ \<Rightarrow> Panic)
                  in if length (baselineFile d) > 0
                     then (case time_Since (lastSave d) s2 of
                        (elapsed, s3) \<Rightarrow>
                          if elapsed \<ge> baselineInterval d then autosave d s3 res
                          else (res, d, s3))
                     else (res, d, s2))))"

text \<open>The bytes \<open>SetBaseline\<close> sends once both groups are accepted.\<close>

definition baseline_frame :: "byte list \<Rightarrow> byte list \<Rightarrow> byte list" where
  "baseline_frame g03 g36 = ([0x20, 0x1e] @ g36) @ g03"

definition SetBaseline :: "'b Dev \<Rightarrow> slice \<Rightarrow> 'b world \<Rightarrow> unit outcome \<times> 'b world" where
  "SetBaseline d baseline s =
     (case reslice baseline 0 3 of
        None \<Rightarrow> (Panic, s)
      | Some g03 \<Rightarrow>
          if \<not> checkCRC8 g03
          then (Failure (CRC8Error ''sgp30: set baseline word 1'' g03), s)
          else (case reslice baseline 3 6 of
             None \<Rightarrow> (Panic, s)
           | Some g36 \<Rightarrow>
               if \<not> checkCRC8 g36
               then (Failure (CRC8Error ''sgp30: set baseline word 2'' g36), s)
               else (case StartMeasurements d s of
                  (_, s1) \<Rightarrow>
                    (case Tx (i2c d) (baseline_frame g03 g36) 0 s1 of
                       (Inl e, s2) \<Rightarrow> (Failure (Errorf ''sgp30: Error while setting baseline'' e), s2)
                     | (Inr _, s2) \<Rightarrow> (Value (), s2)))))"


section \<open>A scripted bus\<close>

text \<open>
  A bus that replays a fixed list of exchanges, for concrete runs: a call that matches the
  next scripted address, written bytes and reply length is answered with the scripted
  reply; any other call is a bus error.  Either way the scripted exchange is used up.
\<close>

type_synonym script = "(uint16 \<times> byte list \<times> byte list) list"

fun scripted :: "script Bus" where
  "scripted [] a w n = (Inl (IOError ''unexpected Tx()''), [])"
| "scripted ((a', w', r) # ops) a w n =
     (if a = a' \<and> w = w' \<and> length r = n then (Inr r, ops)
      else (Inl (IOError ''unexpected Tx()''), ops))"

definition world0 :: "script \<Rightarrow> (string \<Rightarrow> byte list option) \<Rightarrow> (nat \<Rightarrow> int) \<Rightarrow> script world" where
  "world0 ops fs clock =
     \<lparr>bus = ops, files = fs, writable = (\<lambda>p. True), slack = 512, ticks = clock, reads = 0,
      trace = []\<rparr>"

text \<open>A gas-sensor handle on the scripted bus, with the given calibration path, interval
  and time of the last save.\<close>

definition sgp_dev :: "string \<Rightarrow> int \<Rightarrow> int \<Rightarrow> script Dev" where
  "sgp_dev p iv t =
     \<lparr>i2c = \<lparr>Bus = scripted, Addr = SGP30_ADDR\<rparr>, baselineFile = p, baselineInterval = iv,
      lastSave = t, err = None\<rparr>"

text \<open>Replies taken from the tests of the gas sensor.\<close>

definition GoodSerialNumber :: "byte list" where
  "GoodSerialNumber = [0x00, 0x00, 0x81, 0x01, 0x57, 0x9C, 0xAC, 0xA2, 0x54]"

definition GoodBaselineData :: "byte list" where
  "GoodBaselineData = [0x88, 0xa1, 0x58, 0x8d, 0xc4, 0x61]"

definition BadBaselineData :: "byte list" where
  "BadBaselineData = [0, 0, 0, 0, 0, 0]"

definition GoodAirQualityData :: "byte list" where
  "GoodAirQualityData = [0x01, 0x9e, 0x53, 0x00, 0x0d, 0xcd]"

section \<open>Notions used in the statements\<close>

text \<open>The big-endian 16-bit value of a high and a low byte.\<close>

definition be16 :: "byte \<Rightarrow> byte \<Rightarrow> uint16" where
  "be16 hi lo = push_bit 8 (ucast hi) + ucast lo"

text \<open>The measurement fields of a frame, read at their offsets.\<close>

definition fields :: "byte list \<Rightarrow> Results" where
  "fields r =
     \<lparr>CfPm1 = be16 (r ! 4) (r ! 5), CfPm2_5 = be16 (r ! 6) (r ! 7), CfPm10 = be16 (r ! 8) (r ! 9),
      EnvPm1 = be16 (r ! 10) (r ! 11), EnvPm2_5 = be16 (r ! 12) (r ! 13),
      EnvPm10 = be16 (r ! 14) (r ! 15), Cnt0_3 = be16 (r ! 16) (r ! 17),
      Cnt0_5 = be16 (r ! 18) (r ! 19), Cnt1 = be16 (r ! 20) (r ! 21),
      Cnt2_5 = be16 (r ! 22) (r ! 23), Cnt5 = be16 (r ! 24) (r ! 25),
      Cnt10 = be16 (r ! 26) (r ! 27), Version = r ! 28\<rparr>"

text \<open>A frame and a driver handle on the scripted bus, as in the tests of the particle
  sensor.\<close>

definition GoodSensorData :: "byte list" where
  "GoodSensorData =
     [0x42, 0x4d, 0x00, 0x1c, 0x00, 0x00, 0x00, 0x01,
      0x00, 0x05, 0x00, 0x00, 0x00, 0x01, 0x00, 0x05,
      0x00, 0x7e, 0x00, 0x2a, 0x00, 0x0f, 0x00, 0x09,
      0x00, 0x03, 0x00, 0x03, 0x97, 0x00, 0x02, 0x14]"

definition pm_dev :: "script pmsa003i_Dev" where
  "pm_dev = \<lparr>pm_i2c = \<lparr>Bus = scripted, Addr = PMSA003I_ADDR\<rparr>, pm_err = None\<rparr>"




definition elapsed :: "'b Dev \<Rightarrow> 'b world \<Rightarrow> int" where
  "elapsed d s = time_Sub (ticks s (reads s)) (lastSave d)"

definition due :: "'b Dev \<Rightarrow> 'b world \<Rightarrow> bool" where
  "due d s \<longleftrightarrow> length (baselineFile d) > 0 \<and> elapsed d s \<ge> baselineInterval d"



text \<open>The good baseline as a slice with no spare capacity, and the features reply of
  the tests.\<close>

definition GoodBaseline :: slice where
  "GoodBaseline = \<lparr>elems = GoodBaselineData, room = []\<rparr>"

definition GoodFeaturesData :: "byte list" where
  "GoodFeaturesData = [0x00, 0x22, 0x65]"

section \<open>The arithmetic checksum\<close>

lemma cksum_loop_eq:
  "cksum_loop ds i c = c + of_nat (sum_list (map unat (drop i (take (length ds - 2) ds))))"
proof (induction ds i c rule: cksum_loop.induct)
  case (1 ds i cksum)
  show ?case
  proof (cases "int i < int (length ds) - 2")
    case True
    then have i: "i < length ds - 2" by linarith
    then have "drop i (take (length ds - 2) ds) = ds ! i # drop (Suc i) (take (length ds - 2) ds)"
      using Cons_nth_drop_Suc [of i "take (length ds - 2) ds"] by simp
    with True 1 show ?thesis
      by (subst cksum_loop.simps) (simp add: algebra_simps)
  next
    case False
    then have "length ds - 2 \<le> i" by linarith
    with False show ?thesis
      by (subst cksum_loop.simps) simp
  qed
qed

lemma of_nat_sum_unat:
  "(of_nat (sum_list (map unat (bs :: byte list))) :: uint16) = sum_list (map ucast bs)"
  by (induction bs) simp_all

lemma sum_unat_bound: "sum_list (map unat (bs :: byte list)) \<le> 255 * length bs"
proof (induction bs)
  case Nil
  then show ?case by simp
next
  case (Cons b bs)
  have "unat b \<le> 255" using unsigned_less [of b, where ?'a = nat] by simp
  with Cons show ?case by simp
qed

lemma cksum_loop_32:
  assumes "length ds = 32"
  shows "cksum_loop ds 0 0 = of_nat (sum_list (map unat (take 30 ds)))"
proof -
  have "length ds - 2 = 30" using assms by simp
  then show ?thesis by (simp only: cksum_loop_eq drop_0 add_0)
qed

lemma word_30:
  assumes "length ds = 32"
  shows "word ds 30 = Some (push_bit 8 (ucast (ds ! 30)) + ucast (ds ! 31))"
  using assms by (simp add: word_def)

lemma checksum_32:
  assumes "length ds = 32"
  shows "checksum ds =
    Some (push_bit 8 (ucast (ds ! 30)) + ucast (ds ! 31)
            = (of_nat (sum_list (map unat (take 30 ds))) :: uint16))"
  unfolding checksum_def using word_30 [OF assms] cksum_loop_32 [OF assms]
  by (simp only: option.case)

lemma sum_ge_marker:
  assumes "length (ds :: byte list) = 32" "ds ! 0 = 0x42" "ds ! 1 = 0x4D"
  shows "143 \<le> sum_list (map unat (take 30 ds))"
proof -
  obtain a b rest where ds: "ds = a # b # rest"
    using assms(1) by (metis Suc_length_conv numeral_eq_Suc pred_numeral_simps(2,3) length_Suc_conv)
  with assms show ?thesis by simp
qed

lemma zero_word_fails:
  assumes "length ds = 32" "ds ! 0 = 0x42" "ds ! 1 = 0x4D" "ds ! 30 = 0" "ds ! 31 = 0"
  shows "checksum ds = Some False"
proof -
  let ?n = "sum_list (map unat (take 30 ds))"
  have "?n \<le> 255 * length (take 30 ds)" by (rule sum_unat_bound)
  then have up: "?n \<le> 7650" using assms(1) by simp
  have lo: "143 \<le> ?n" using sum_ge_marker assms(1-3) by blast
  have "unat (of_nat ?n :: uint16) = ?n"
    using up by (simp add: unat_of_nat)
  then have "(of_nat ?n :: uint16) \<noteq> 0" using lo by (metis not_numeral_le_zero unat_0 unsigned_0)
  then show ?thesis using checksum_32 [OF assms(1)] assms(4,5) by simp
qed

text \<open>
  C7.  On a frame of 32 bytes \<open>checksum\<close> never panics: it adds bytes 0 to 29 as 16-bit
  numbers, wrapping around, and passes exactly when the sum equals the big-endian word of
  bytes 30 and 31.  So a frame that starts with 0x42 0x4D and carries a zero checksum
  word fails: the sum of its first thirty bytes lies between 143 and 7650.
\<close>

theorem checksum_is_wrapping_sum:
  assumes "length ds = 32"
  shows "checksum ds =
           Some (sum_list (map ucast (take 30 ds))
                   = (push_bit 8 (ucast (ds ! 30)) + ucast (ds ! 31) :: uint16))
         \<and> (ds ! 0 = 0x42 \<and> ds ! 1 = 0x4D \<and> ds ! 30 = 0 \<and> ds ! 31 = 0
              \<longrightarrow> checksum ds = Some False)"
proof
  show "checksum ds =
           Some (sum_list (map ucast (take 30 ds))
                   = (push_bit 8 (ucast (ds ! 30)) + ucast (ds ! 31) :: uint16))"
    using checksum_32 [OF assms] by (simp only: of_nat_sum_unat eq_commute)
  show "ds ! 0 = 0x42 \<and> ds ! 1 = 0x4D \<and> ds ! 30 = 0 \<and> ds ! 31 = 0 \<longrightarrow> checksum ds = Some False"
    using zero_word_fails [OF assms] by blast
qed

theorem checksum_is_wrapping_sum_witness:
  "length [0x42, 0x4d, 0, 0, 0, 0, 0, 0, 0, 0, 0, 0, 0, 0, 0, 0,
           0, 0, 0, 0, 0, 0, 0, 0, 0, 0, 0, 0, 0, 0, 0, 0 :: byte] = 32
   \<and> checksum [0x42, 0x4d, 0, 0, 0, 0, 0, 0, 0, 0, 0, 0, 0, 0, 0, 0,
                0, 0, 0, 0, 0, 0, 0, 0, 0, 0, 0, 0, 0, 0, 0, 0] = Some False"
  using checksum_is_wrapping_sum
    [of "[0x42, 0x4d, 0, 0, 0, 0, 0, 0, 0, 0, 0, 0, 0, 0, 0, 0,
          0, 0, 0, 0, 0, 0, 0, 0, 0, 0, 0, 0, 0, 0, 0, 0]"]
  by simp

section \<open>The CRC-8\<close>

lemma crc_serial_1: "checkCRC8 [0x00, 0x00, 0x81]" by code_simp
lemma crc_serial_2: "checkCRC8 [0x01, 0x57, 0x9C]" by code_simp
lemma crc_serial_3: "checkCRC8 [0xAC, 0xA2, 0x54]" by code_simp
lemma crc_baseline_1: "checkCRC8 [0x88, 0xa1, 0x58]" by code_simp
lemma crc_baseline_2: "checkCRC8 [0x8d, 0xc4, 0x61]" by code_simp
lemma crc_features: "checkCRC8 [0x00, 0x22, 0x65]" by code_simp
lemma crc_air_1: "checkCRC8 [0x01, 0x9e, 0x53]" by code_simp
lemma crc_air_2: "checkCRC8 [0x00, 0x0d, 0xcd]" by code_simp

text \<open>
  C8, as stated: with polynomial 0x31, initial value 0xFF, no reflection and no final
  XOR, the checksum of the ASCII bytes of "123456789" would be 0xA1.  It is not.
\<close>

theorem crc8_check_value_counterexample:
  "Checksum [0x31, 0x32, 0x33, 0x34, 0x35, 0x36, 0x37, 0x38, 0x39] CRC8_SGP30 \<noteq> 0xA1"
  by code_simp

text \<open>
  C8, amended.  The table is built with polynomial 0x31, initial value 0xFF, no
  reflection of input or output and no final XOR; the checksum of the ASCII bytes of
  "123456789" is 0xF7; and a group of three bytes is accepted exactly when the CRC-8
  over all three is zero.
\<close>

theorem crc8_parameters_and_check_value:
  "Poly (params CRC8_SGP30) = 0x31
   \<and> Init (params CRC8_SGP30) = 0xFF
   \<and> \<not> RefIn (params CRC8_SGP30)
   \<and> \<not> RefOut (params CRC8_SGP30)
   \<and> XorOut (params CRC8_SGP30) = 0x00
   \<and> Checksum [0x31, 0x32, 0x33, 0x34, 0x35, 0x36, 0x37, 0x38, 0x39] CRC8_SGP30 = 0xF7
   \<and> (checkCRC8 [data_hi, data_lo, crc] \<longleftrightarrow> Checksum [data_hi, data_lo, crc] CRC8_SGP30 = 0)"
proof -
  have "Poly (params CRC8_SGP30) = 0x31" by (simp add: CRC8_SGP30_def MakeTable_def)
  moreover have "Init (params CRC8_SGP30) = 0xFF" by (simp add: CRC8_SGP30_def MakeTable_def)
  moreover have "\<not> RefIn (params CRC8_SGP30)" by (simp add: CRC8_SGP30_def MakeTable_def)
  moreover have "\<not> RefOut (params CRC8_SGP30)" by (simp add: CRC8_SGP30_def MakeTable_def)
  moreover have "XorOut (params CRC8_SGP30) = 0x00" by (simp add: CRC8_SGP30_def MakeTable_def)
  moreover have "Checksum [0x31, 0x32, 0x33, 0x34, 0x35, 0x36, 0x37, 0x38, 0x39] CRC8_SGP30 = 0xF7"
    by code_simp
  moreover have "checkCRC8 [data_hi, data_lo, crc] \<longleftrightarrow> Checksum [data_hi, data_lo, crc] CRC8_SGP30 = 0"
    by (simp only: checkCRC8_def)
  ultimately show ?thesis by blast
qed

section \<open>Reading the particle sensor\<close>

lemma length_fill [simp]: "length (fill n r) = n"
  by (simp add: fill_def)

lemma fill_exact: "length r = n \<Longrightarrow> fill n r = r"
  by (simp add: fill_def)

lemma Tx_ok:
  assumes "Bus c (bus s) (Addr c) w n = (Inr r, b)"
  shows "Tx c w n s = (Inr (fill n r), s\<lparr>bus := b, trace := trace s @ [EvTx (Addr c) w n]\<rparr>)"
  using assms by (simp add: Tx_def)

lemma Tx_err:
  assumes "Bus c (bus s) (Addr c) w n = (Inl e, b)"
  shows "Tx c w n s = (Inl e, s\<lparr>bus := b, trace := trace s @ [EvTx (Addr c) w n]\<rparr>)"
  using assms by (simp add: Tx_def)

lemma word_in_range: "i + 1 < length ds \<Longrightarrow> word ds i = Some (be16 (ds ! i) (ds ! (i + 1)))"
  by (simp add: word_def be16_def)

lemma decode_32:
  assumes "length r = 32"
  shows "decode r = Some (fields r)"
  using assms by (simp add: decode_def fields_def word_in_range)

lemma checksum_total_32:
  assumes "length r = 32"
  shows "\<exists>ok. checksum r = Some ok"
  using checksum_32 [OF assms] by blast

lemma ReadSensor_32:
  assumes "Bus (pm_i2c d) (bus s) (Addr (pm_i2c d)) [] 32 = (Inr r, b)" and len: "length r = 32"
  shows "fst (ReadSensor d s) =
     (if be16 (r ! 0) (r ! 1) \<noteq> 0x424d then Failure (Msg ''pmsa003i: Bad start word'')
      else if checksum r \<noteq> Some True then Failure (Msg ''pmsa003i: Bad checksum'')
      else if r ! 29 \<noteq> 0 then Failure (ErrorCode (r ! 29))
      else Value (fields r))"
proof -
  obtain ok where ok: "checksum r = Some ok" using checksum_total_32 [OF len] by blast
  have w0: "word r 0 = Some (be16 (r ! 0) (r ! 1))" using len by (simp add: word_in_range)
  show ?thesis
    unfolding ReadSensor_def Tx_ok [OF assms(1)] fill_exact [OF len]
    by (simp add: w0 ok decode_32 [OF len])
qed

lemma good_frame_checksum: "checksum GoodSensorData = Some True"
  by code_simp

lemma good_frame_read:
  "fst (ReadSensor pm_dev (world0 [(0x12, [], GoodSensorData)] (\<lambda>p. None) (\<lambda>n. 0))) =
     Value \<lparr>CfPm1 = 0, CfPm2_5 = 1, CfPm10 = 5, EnvPm1 = 0, EnvPm2_5 = 1, EnvPm10 = 5,
            Cnt0_3 = 126, Cnt0_5 = 42, Cnt1 = 15, Cnt2_5 = 9, Cnt5 = 3, Cnt10 = 3,
            Version = 151\<rparr>"
  by code_simp

text \<open>
  C4.  When the bus delivers a frame of 32 bytes, \<open>ReadSensor\<close> returns an error
  exactly when the word at offset 0 is not 0x424D, or the checksum fails, or the byte at
  offset 29 is not zero; otherwise it returns the results decoded at the fixed offsets
  (concentrations at 4 to 14, counts at 16 to 26, version at 28).  The frame of the
  tests decodes to concentrations (0,1,5) and (0,1,5), counts (126,42,15,9,3,3) and
  version 151.
\<close>

theorem ReadSensor_validates_and_decodes:
  "(Bus (pm_i2c d) (bus s) (Addr (pm_i2c d)) [] 32 = (Inr r, b) \<and> length r = 32 \<longrightarrow>
      ((\<exists>e. fst (ReadSensor d s) = Failure e) \<longleftrightarrow>
         (be16 (r ! 0) (r ! 1) \<noteq> 0x424D \<or> checksum r \<noteq> Some True \<or> r ! 29 \<noteq> 0))
      \<and> (\<not> (be16 (r ! 0) (r ! 1) \<noteq> 0x424D \<or> checksum r \<noteq> Some True \<or> r ! 29 \<noteq> 0) \<longrightarrow>
           fst (ReadSensor d s) =
             Value \<lparr>CfPm1 = be16 (r ! 4) (r ! 5), CfPm2_5 = be16 (r ! 6) (r ! 7),
                    CfPm10 = be16 (r ! 8) (r ! 9), EnvPm1 = be16 (r ! 10) (r ! 11),
                    EnvPm2_5 = be16 (r ! 12) (r ! 13), EnvPm10 = be16 (r ! 14) (r ! 15),
                    Cnt0_3 = be16 (r ! 16) (r ! 17), Cnt0_5 = be16 (r ! 18) (r ! 19),
                    Cnt1 = be16 (r ! 20) (r ! 21), Cnt2_5 = be16 (r ! 22) (r ! 23),
                    Cnt5 = be16 (r ! 24) (r ! 25), Cnt10 = be16 (r ! 26) (r ! 27),
                    Version = r ! 28\<rparr>))
   \<and> fst (ReadSensor pm_dev (world0 [(0x12, [], GoodSensorData)] (\<lambda>p. None) (\<lambda>n. 0))) =
       Value \<lparr>CfPm1 = 0, CfPm2_5 = 1, CfPm10 = 5, EnvPm1 = 0, EnvPm2_5 = 1, EnvPm10 = 5,
              Cnt0_3 = 126, Cnt0_5 = 42, Cnt1 = 15, Cnt2_5 = 9, Cnt5 = 3, Cnt10 = 3,
              Version = 151\<rparr>"
proof (intro conjI impI)
  assume h: "Bus (pm_i2c d) (bus s) (Addr (pm_i2c d)) [] 32 = (Inr r, b) \<and> length r = 32"
  then have h1: "Bus (pm_i2c d) (bus s) (Addr (pm_i2c d)) [] 32 = (Inr r, b)"
    and h2: "length r = 32" by blast+
  have eq: "fst (ReadSensor d s) =
     (if be16 (r ! 0) (r ! 1) \<noteq> 0x424d then Failure (Msg ''pmsa003i: Bad start word'')
      else if checksum r \<noteq> Some True then Failure (Msg ''pmsa003i: Bad checksum'')
      else if r ! 29 \<noteq> 0 then Failure (ErrorCode (r ! 29))
      else Value (fields r))"
    by (rule ReadSensor_32 [OF h1 h2])
  show "(\<exists>e. fst (ReadSensor d s) = Failure e) \<longleftrightarrow>
         (be16 (r ! 0) (r ! 1) \<noteq> 0x424D \<or> checksum r \<noteq> Some True \<or> r ! 29 \<noteq> 0)"
    unfolding eq by auto
  assume "\<not> (be16 (r ! 0) (r ! 1) \<noteq> 0x424D \<or> checksum r \<noteq> Some True \<or> r ! 29 \<noteq> 0)"
  then show "fst (ReadSensor d s) =
             Value \<lparr>CfPm1 = be16 (r ! 4) (r ! 5), CfPm2_5 = be16 (r ! 6) (r ! 7),
                    CfPm10 = be16 (r ! 8) (r ! 9), EnvPm1 = be16 (r ! 10) (r ! 11),
                    EnvPm2_5 = be16 (r ! 12) (r ! 13), EnvPm10 = be16 (r ! 14) (r ! 15),
                    Cnt0_3 = be16 (r ! 16) (r ! 17), Cnt0_5 = be16 (r ! 18) (r ! 19),
                    Cnt1 = be16 (r ! 20) (r ! 21), Cnt2_5 = be16 (r ! 22) (r ! 23),
                    Cnt5 = be16 (r ! 24) (r ! 25), Cnt10 = be16 (r ! 26) (r ! 27),
                    Version = r ! 28\<rparr>"
    unfolding eq by (simp add: fields_def)
next
  show "fst (ReadSensor pm_dev (world0 [(0x12, [], GoodSensorData)] (\<lambda>p. None) (\<lambda>n. 0))) =
       Value \<lparr>CfPm1 = 0, CfPm2_5 = 1, CfPm10 = 5, EnvPm1 = 0, EnvPm2_5 = 1, EnvPm10 = 5,
              Cnt0_3 = 126, Cnt0_5 = 42, Cnt1 = 15, Cnt2_5 = 9, Cnt5 = 3, Cnt10 = 3,
              Version = 151\<rparr>"
    by (rule good_frame_read)
qed

lemma good_frame_bus:
  "Bus (pm_i2c pm_dev) (bus (world0 [(0x12, [], GoodSensorData)] (\<lambda>p. None) (\<lambda>n. 0)))
     (Addr (pm_i2c pm_dev)) [] 32 = (Inr GoodSensorData, [])"
  by (simp add: pm_dev_def world0_def PMSA003I_ADDR_def GoodSensorData_def)

lemma good_frame_fields:
  "length GoodSensorData = 32" "be16 (GoodSensorData ! 0) (GoodSensorData ! 1) = 0x424D"
  "GoodSensorData ! 29 = 0"
  by (simp_all add: GoodSensorData_def be16_def)

theorem ReadSensor_validates_and_decodes_witness:
  "Bus (pm_i2c pm_dev) (bus (world0 [(0x12, [], GoodSensorData)] (\<lambda>p. None) (\<lambda>n. 0)))
     (Addr (pm_i2c pm_dev)) [] 32 = (Inr GoodSensorData, [])
   \<and> length GoodSensorData = 32
   \<and> \<not> (\<exists>e. fst (ReadSensor pm_dev (world0 [(0x12, [], GoodSensorData)] (\<lambda>p. None) (\<lambda>n. 0))) = Failure e)"
  using ReadSensor_validates_and_decodes
    [of pm_dev "world0 [(0x12, [], GoodSensorData)] (\<lambda>p. None) (\<lambda>n. 0)" GoodSensorData "[]"]
    good_frame_bus good_frame_fields good_frame_checksum
  by simp

section \<open>The gas sensor: single operations\<close>

lemma sub_length: "hi \<le> length a \<Longrightarrow> lo \<le> hi \<Longrightarrow> length (sub a lo hi) = hi - lo"
  by (simp add: sub_def)

lemma Tx_frame:
  "files (snd (Tx c w n s)) = files s" "writable (snd (Tx c w n s)) = writable s"
  "slack (snd (Tx c w n s)) = slack s" "ticks (snd (Tx c w n s)) = ticks s"
  "reads (snd (Tx c w n s)) = reads s"
  "trace (snd (Tx c w n s)) = trace s @ [EvTx (Addr c) w n]"
  by (simp_all add: Tx_def split: prod.splits sum.splits)

lemma Tx_result:
  "fst (Tx c w n s) = map_sum id (fill n) (fst (Bus c (bus s) (Addr c) w n))"
  "bus (snd (Tx c w n s)) = snd (Bus c (bus s) (Addr c) w n)"
  by (simp_all add: Tx_def split: prod.splits sum.splits)

lemma GetSerialNumber_ok:
  assumes "Bus (i2c d) (bus s) (Addr (i2c d)) [0x36, 0x82] 9 = (Inr r, b)" and len: "length r = 9"
  shows "fst (GetSerialNumber d s) =
     (if \<not> checkCRC8 (sub r 0 3) then Failure (CRC8Error ''sgp30: serial number word 1'' (sub r 0 3))
      else if \<not> checkCRC8 (sub r 3 6) then Failure (CRC8Error ''sgp30: serial number word 2'' (sub r 3 6))
      else if \<not> checkCRC8 (sub r 6 9) then Failure (CRC8Error ''sgp30: serial number word 3'' (sub r 6 9))
      else Value (push_bit 24 (ucast (be16 (r ! 0) (r ! 1))) + push_bit 16 (ucast (be16 (r ! 3) (r ! 4)))
                  + ucast (be16 (r ! 6) (r ! 7))))"
  unfolding GetSerialNumber_def Tx_ok [OF assms(1)] fill_exact [OF len]
  using len by (simp add: word_in_range)



lemma GetFeatures_ok:
  assumes "Bus (i2c d) (bus s) (Addr (i2c d)) [0x20, 0x2f] 3 = (Inr r, b)" and len: "length r = 3"
  shows "fst (GetFeatures d s) =
     (if \<not> checkCRC8 (sub r 0 3) then Failure (CRC8Error ''sgp30: features'' (sub r 0 3))
      else Value (r ! 0, r ! 1))"
  unfolding GetFeatures_def Tx_ok [OF assms(1)] fill_exact [OF len]
  by simp

lemma ReadBaseline_ok:
  assumes "Bus (i2c d) (bus s) (Addr (i2c d)) [0x20, 0x15] 6 = (Inr r, b)" and len: "length r = 6"
  shows "fst (ReadBaseline d s) =
     (if \<not> checkCRC8 (sub r 0 3) then Failure (CRC8Error ''sgp30: baseline word 1'' (sub r 0 3))
      else if \<not> checkCRC8 (sub r 3 6) then Failure (CRC8Error ''sgp30: baseline word 2'' (sub r 3 6))
      else Value r)"
  unfolding ReadBaseline_def Tx_ok [OF assms(1)] fill_exact [OF len]
  by simp

lemma ReadBaseline_trace:
  "trace (snd (ReadBaseline d s)) = trace s @ [EvTx (Addr (i2c d)) [0x20, 0x15] 6]"
  by (simp add: ReadBaseline_def Tx_def split: prod.splits sum.splits)

lemma ReadBaseline_no_panic: "\<not> is_Panic (fst (ReadBaseline d s))"
  by (simp add: ReadBaseline_def Tx_def split: prod.splits sum.splits)

section \<open>Reading the air quality and saving the baseline\<close>



lemma word_fill6:
  "word (fill 6 r) 0 = Some (be16 (fill 6 r ! 0) (fill 6 r ! 1))"
  "word (fill 6 r) 3 = Some (be16 (fill 6 r ! 3) (fill 6 r ! 4))"
  by (simp_all add: word_in_range)

lemma ReadAirQuality_ok:
  assumes t1: "Bus (i2c d) (bus s) (Addr (i2c d)) [0x20, 0x08] 0 = (Inr r0, b1)"
    and t2: "Bus (i2c d) b1 (Addr (i2c d)) [] 6 = (Inr r, b2)"
  shows "ReadAirQuality d s =
     (let ds = fill 6 r;
          s2 = s\<lparr>bus := b2,
                  trace := trace s @ [EvTx (Addr (i2c d)) [0x20, 0x08] 0, EvSleep 10000000,
                                      EvTx (Addr (i2c d)) [] 6]\<rparr>;
          res = Value (be16 (ds ! 0) (ds ! 1), be16 (ds ! 3) (ds ! 4))
      in if \<not> checkCRC8 (sub ds 0 3)
         then (Failure (CRC8Error ''sgp30: read air quality word 1'' (sub ds 0 3)), d, s2)
         else if \<not> checkCRC8 (sub ds 3 6)
         then (Failure (CRC8Error ''sgp30: read air quality word 2'' (sub ds 3 6)), d, s2)
         else if \<not> due d s then (res, d, if baselineFile d = [] then s2 else s2\<lparr>reads := Suc (reads s)\<rparr>)
         else autosave d (s2\<lparr>reads := Suc (reads s)\<rparr>) res)"
proof -
  have a: "Tx (i2c d) [0x20, 0x08] 0 s =
             (Inr (fill 0 r0), s\<lparr>bus := b1, trace := trace s @ [EvTx (Addr (i2c d)) [0x20, 0x08] 0]\<rparr>)"
    by (rule Tx_ok [OF t1])
  have b: "Tx (i2c d) [] 6 (Sleep 10000000 (s\<lparr>bus := b1, trace := trace s @ [EvTx (Addr (i2c d)) [0x20, 0x08] 0]\<rparr>)) =
             (Inr (fill 6 r),
              s\<lparr>bus := b2, trace := trace s @ [EvTx (Addr (i2c d)) [0x20, 0x08] 0, EvSleep 10000000,
                                      EvTx (Addr (i2c d)) [] 6]\<rparr>)"
    using t2 by (simp add: Tx_def Sleep_def)
  show ?thesis
    by (simp add: ReadAirQuality_def a b word_fill6 Let_def due_def elapsed_def time_Since_def time_Now_def)
qed






section \<open>The serial number and the time of the last save\<close>

text \<open>
  C1.  The serial number is to be the three words of the reply put together as
  \<open>w0 * 2^32 + w1 * 2^16 + w2\<close>.  \<open>GetSerialNumber\<close> shifts the first word by 24
  bits only: the reply 01 57 9C 01 57 9C AC A2 54, whose groups all pass CRC-8, gives
  0x015857ACA2 and not 0x01570157ACA2.
\<close>

theorem GetSerialNumber_first_word_shifted_24:
  "fst (GetSerialNumber (sgp_dev [] 0 0)
         (world0 [(0x58, [0x36, 0x82], [0x01, 0x57, 0x9C, 0x01, 0x57, 0x9C, 0xAC, 0xA2, 0x54])]
            (\<lambda>p. None) (\<lambda>n. 0)))
     = Value 0x015857ACA2
   \<and> (0x015857ACA2 :: uint64) \<noteq> 0x0157 * 2 ^ 32 + 0x0157 * 2 ^ 16 + 0xACA2"
  by code_simp

text \<open>
  C2.  The time of the last save is to change only after the baseline was read and
  written, and to stay as it is when reading the baseline fails.  \<open>ReadAirQuality\<close>
  sets it first: with a save due and the Read-Baseline exchange failing on the bus, the
  call returns the error and the handle's \<open>lastSave\<close> has moved from 0 to the clock
  reading 1001.
\<close>

theorem failed_baseline_read_moves_lastSave:
  "(case ReadAirQuality (sgp_dev ''baseline'' 0 0)
         (world0 [(0x58, [0x20, 0x08], []), (0x58, [], GoodAirQualityData)]
            (\<lambda>p. None) (\<lambda>n. 1000 + int n)) of
      (res, d, s) \<Rightarrow> (res, lastSave d)) =
   (Failure (Errorf ''sgp30: Error while reading baseline''
       (Errorf ''sgp30: Error while reading baseline'' (IOError ''unexpected Tx()''))), 1001)
   \<and> lastSave (sgp_dev ''baseline'' 0 0) = 0"
  by code_simp

section \<open>Restoring the baseline at construction\<close>


lemma reslice_6:
  assumes "6 \<le> length (elems bl)"
  shows "reslice bl 0 3 = Some (take 3 (elems bl))" "reslice bl 3 6 = Some (take 3 (drop 3 (elems bl)))"
  using assms by (simp_all add: reslice_def)

lemma StartMeasurements_no_panic: "\<not> is_Panic (fst (StartMeasurements d s))"
  by (simp add: StartMeasurements_def Tx_def split: prod.splits sum.splits)

lemma SetBaseline_6:
  assumes "6 \<le> length (elems bl)"
  shows "SetBaseline d bl s =
     (let g03 = take 3 (elems bl); g36 = take 3 (drop 3 (elems bl)) in
      if \<not> checkCRC8 g03 then (Failure (CRC8Error ''sgp30: set baseline word 1'' g03), s)
      else if \<not> checkCRC8 g36 then (Failure (CRC8Error ''sgp30: set baseline word 2'' g36), s)
      else (case Tx (i2c d) (baseline_frame g03 g36) 0 (snd (StartMeasurements d s)) of
              (Inl e, s2) \<Rightarrow> (Failure (Errorf ''sgp30: Error while setting baseline'' e), s2)
            | (Inr x, s2) \<Rightarrow> (Value (), s2)))"
  by (simp add: SetBaseline_def reslice_6 [OF assms] Let_def split: prod.splits)



lemma ReadFile_present:
  assumes "files s p = Some f"
  shows "fst (ReadFile p s) = Inr \<lparr>elems = f, room = replicate (slack s) 0\<rparr>"
  using assms by (simp add: ReadFile_def)




section \<open>Setting the baseline\<close>

lemma StartMeasurements_trace:
  "trace (snd (StartMeasurements d s)) = trace s @ [EvTx (Addr (i2c d)) [0x20, 0x03] 0]"
  by (simp add: StartMeasurements_def Tx_def split: prod.splits sum.splits)

lemma StartMeasurements_bus:
  "bus (snd (StartMeasurements d s)) = snd (Bus (i2c d) (bus s) (Addr (i2c d)) [0x20, 0x03] 0)"
  by (simp add: StartMeasurements_def Tx_def split: prod.splits sum.splits)

lemma StartMeasurements_err:
  assumes "Bus (i2c d) (bus s) (Addr (i2c d)) [0x20, 0x03] 0 = (Inl e, b1)"
  shows "fst (StartMeasurements d s) = Failure (Errorf ''sgp30: Error starting air quality measurements'' e)"
  using assms by (simp add: StartMeasurements_def Tx_def)

lemma SetBaseline_accepted:
  assumes len: "6 \<le> length (elems bl)"
    and crc: "checkCRC8 (take 3 (elems bl))" "checkCRC8 (take 3 (drop 3 (elems bl)))"
  shows "trace (snd (SetBaseline d bl s)) =
           trace s @ [EvTx (Addr (i2c d)) [0x20, 0x03] 0,
                      EvTx (Addr (i2c d)) ([0x20, 0x1e] @ take 3 (drop 3 (elems bl)) @ take 3 (elems bl)) 0]"
    and "fst (SetBaseline d bl s) =
           (case fst (Bus (i2c d) (snd (Bus (i2c d) (bus s) (Addr (i2c d)) [0x20, 0x03] 0)) (Addr (i2c d))
                        ([0x20, 0x1e] @ take 3 (drop 3 (elems bl)) @ take 3 (elems bl)) 0) of
              Inl e \<Rightarrow> Failure (Errorf ''sgp30: Error while setting baseline'' e)
            | Inr x \<Rightarrow> Value ())"
proof -
  let ?f = "[0x20, 0x1e] @ take 3 (drop 3 (elems bl)) @ take 3 (elems bl)"
  let ?s1 = "snd (StartMeasurements d s)"
  have eq: "SetBaseline d bl s =
      (case Tx (i2c d) ?f 0 ?s1 of
         (Inl e, s2) \<Rightarrow> (Failure (Errorf ''sgp30: Error while setting baseline'' e), s2)
       | (Inr x, s2) \<Rightarrow> (Value (), s2))"
    using crc by (simp add: SetBaseline_6 [OF len] Let_def baseline_frame_def)
  have "snd (SetBaseline d bl s) = snd (Tx (i2c d) ?f 0 ?s1)"
    unfolding eq by (simp split: prod.splits sum.splits)
  then show "trace (snd (SetBaseline d bl s)) =
           trace s @ [EvTx (Addr (i2c d)) [0x20, 0x03] 0, EvTx (Addr (i2c d)) ?f 0]"
    by (simp add: Tx_frame(6) StartMeasurements_trace)
  have "fst (SetBaseline d bl s) =
      (case fst (Tx (i2c d) ?f 0 ?s1) of
         Inl e \<Rightarrow> Failure (Errorf ''sgp30: Error while setting baseline'' e)
       | Inr x \<Rightarrow> Value ())"
    unfolding eq by (simp split: prod.splits sum.splits)
  then show "fst (SetBaseline d bl s) =
           (case fst (Bus (i2c d) (snd (Bus (i2c d) (bus s) (Addr (i2c d)) [0x20, 0x03] 0)) (Addr (i2c d)) ?f 0) of
              Inl e \<Rightarrow> Failure (Errorf ''sgp30: Error while setting baseline'' e)
            | Inr x \<Rightarrow> Value ())"
    by (simp add: Tx_result(1) StartMeasurements_bus split: sum.splits)
qed

text \<open>
  C10.  For a baseline of 6 bytes whose two groups pass CRC-8, when the bus fails the
  Start-Measurements exchange (write 0x20 0x03), \<open>StartMeasurements\<close> itself reports
  the failure, but \<open>SetBaseline\<close> still sends the baseline write 0x20 0x1E after it and
  returns what that write alone gives: success if the write succeeds, the write's error
  otherwise.
\<close>

theorem SetBaseline_ignores_StartMeasurements_failure:
  assumes "length (elems bl) = 6"
    and "checkCRC8 (take 3 (elems bl))" and "checkCRC8 (drop 3 (elems bl))"
    and "Bus (i2c d) (bus s) (Addr (i2c d)) [0x20, 0x03] 0 = (Inl e, b1)"
  shows "is_Failure (fst (StartMeasurements d s))
       \<and> trace (snd (SetBaseline d bl s)) =
           trace s @ [EvTx (Addr (i2c d)) [0x20, 0x03] 0,
                      EvTx (Addr (i2c d)) ([0x20, 0x1e] @ drop 3 (elems bl) @ take 3 (elems bl)) 0]
       \<and> fst (SetBaseline d bl s) =
           (case fst (Bus (i2c d) b1 (Addr (i2c d)) ([0x20, 0x1e] @ drop 3 (elems bl) @ take 3 (elems bl)) 0) of
              Inl e2 \<Rightarrow> Failure (Errorf ''sgp30: Error while setting baseline'' e2)
            | Inr x \<Rightarrow> Value ())"
proof -
  have t: "take 3 (drop 3 (elems bl)) = drop 3 (elems bl)" using assms(1) by simp
  have len: "6 \<le> length (elems bl)" using assms(1) by simp
  have crc2: "checkCRC8 (take 3 (drop 3 (elems bl)))" using assms(3) t by simp
  show ?thesis
    using SetBaseline_accepted [OF len assms(2) crc2, of d s] StartMeasurements_err [OF assms(4)]
    by (simp add: t assms(4))
qed

lemma GoodBaseline_facts:
  "length (elems GoodBaseline) = 6" "checkCRC8 (take 3 (elems GoodBaseline))"
  "checkCRC8 (drop 3 (elems GoodBaseline))"
  by (simp_all add: GoodBaseline_def GoodBaselineData_def crc_baseline_1 crc_baseline_2)

theorem SetBaseline_ignores_StartMeasurements_failure_witness:
  "length (elems GoodBaseline) = 6
   \<and> checkCRC8 (take 3 (elems GoodBaseline)) \<and> checkCRC8 (drop 3 (elems GoodBaseline))
   \<and> Bus (i2c (sgp_dev [] 0 0))
        (bus (world0 [(0x58, [], []), (0x58, [0x20, 0x1e, 0x8d, 0xc4, 0x61, 0x88, 0xa1, 0x58], [])]
                (\<lambda>p. None) (\<lambda>n. 0)))
        (Addr (i2c (sgp_dev [] 0 0))) [0x20, 0x03] 0
       = (Inl (IOError ''unexpected Tx()''),
          [(0x58, [0x20, 0x1e, 0x8d, 0xc4, 0x61, 0x88, 0xa1, 0x58], [])])
   \<and> is_Failure (fst (StartMeasurements (sgp_dev [] 0 0)
        (world0 [(0x58, [], []), (0x58, [0x20, 0x1e, 0x8d, 0xc4, 0x61, 0x88, 0xa1, 0x58], [])]
                (\<lambda>p. None) (\<lambda>n. 0))))
   \<and> fst (SetBaseline (sgp_dev [] 0 0) GoodBaseline
        (world0 [(0x58, [], []), (0x58, [0x20, 0x1e, 0x8d, 0xc4, 0x61, 0x88, 0xa1, 0x58], [])]
                (\<lambda>p. None) (\<lambda>n. 0))) = Value ()"
  using SetBaseline_ignores_StartMeasurements_failure
    [of GoodBaseline "sgp_dev [] 0 0"
        "world0 [(0x58, [], []), (0x58, [0x20, 0x1e, 0x8d, 0xc4, 0x61, 0x88, 0xa1, 0x58], [])]
                (\<lambda>p. None) (\<lambda>n. 0)"
        "IOError ''unexpected Tx()''"
        "[(0x58, [0x20, 0x1e, 0x8d, 0xc4, 0x61, 0x88, 0xa1, 0x58], [])]"]
    GoodBaseline_facts
  by (simp add: sgp_dev_def world0_def SGP30_ADDR_def GoodBaseline_def GoodBaselineData_def)

lemma list6:
  assumes "length (bs :: 'a list) = 6"
  shows "bs = [bs ! 0, bs ! 1, bs ! 2, bs ! 3, bs ! 4, bs ! 5]"
proof -
  from assms obtain a b c d e f where "bs = [a, b, c, d, e, f]"
    by (auto simp: eval_nat_numeral length_Suc_conv)
  then show ?thesis by simp
qed

lemma frame6:
  assumes "length (bs :: byte list) = 6"
  shows "[0x20, 0x1e] @ drop 3 bs @ take 3 bs = [0x20, 0x1e, bs ! 3, bs ! 4, bs ! 5, bs ! 0, bs ! 1, bs ! 2]"
  by (subst (1 2) list6 [OF assms]) simp

lemma swap_twice:
  assumes "length (bs :: byte list) = 6"
  shows "(let p = drop 2 (baseline_frame (take 3 bs) (drop 3 bs))
          in drop 2 (baseline_frame (take 3 p) (drop 3 p))) = bs"
  using assms by (simp add: baseline_frame_def Let_def)

lemma ReadBaseline_Value:
  assumes "fst (ReadBaseline d s) = Value rb"
  shows "length rb = 6 \<and> checkCRC8 (take 3 rb) \<and> checkCRC8 (drop 3 rb)
       \<and> (\<exists>r b. Bus (i2c d) (bus s) (Addr (i2c d)) [0x20, 0x15] 6 = (Inr r, b) \<and> rb = fill 6 r)"
  using assms
  by (auto simp: ReadBaseline_def Tx_def sub_def split: prod.splits sum.splits if_splits)

lemma SetBaseline_6_trace:
  assumes "length (elems bl) = 6" "checkCRC8 (take 3 (elems bl))" "checkCRC8 (drop 3 (elems bl))"
  shows "trace (snd (SetBaseline d bl s)) =
           trace s @ [EvTx (Addr (i2c d)) [0x20, 0x03] 0,
                      EvTx (Addr (i2c d)) ([0x20, 0x1e] @ drop 3 (elems bl) @ take 3 (elems bl)) 0]"
proof -
  have t: "take 3 (drop 3 (elems bl)) = drop 3 (elems bl)" using assms(1) by simp
  have len: "6 \<le> length (elems bl)" using assms(1) by simp
  have crc2: "checkCRC8 (take 3 (drop 3 (elems bl)))" using assms(3) t by simp
  show ?thesis using SetBaseline_accepted(1) [OF len assms(2) crc2, of d s] by (simp add: t)
qed

text \<open>
  C5.  For a baseline of 6 bytes whose two groups pass CRC-8, \<open>SetBaseline\<close> sends
  Start-Measurements and then the 8 bytes 0x20 0x1E, bytes 3 to 5, bytes 0 to 2 of the
  baseline.  For the baseline 88 A1 58 8D C4 61 these are 20 1E 8D C4 61 88 A1 58.
  Swapping the groups twice gives the baseline back.  What \<open>ReadBaseline\<close> returns is
  the reply of the device, and \<open>SetBaseline\<close> accepts it and sends it with its groups
  swapped.
\<close>

theorem SetBaseline_swaps_groups:
  "(length (elems bl) = 6 \<and> checkCRC8 (take 3 (elems bl)) \<and> checkCRC8 (drop 3 (elems bl)) \<longrightarrow>
      trace (snd (SetBaseline d bl s)) =
        trace s @ [EvTx (Addr (i2c d)) [0x20, 0x03] 0,
                   EvTx (Addr (i2c d))
                     [0x20, 0x1E, elems bl ! 3, elems bl ! 4, elems bl ! 5,
                      elems bl ! 0, elems bl ! 1, elems bl ! 2] 0])
   \<and> trace (snd (SetBaseline (sgp_dev [] 0 0) GoodBaseline (world0 [] (\<lambda>p. None) (\<lambda>n. 0)))) =
        [EvTx 0x58 [0x20, 0x03] 0, EvTx 0x58 [0x20, 0x1E, 0x8D, 0xC4, 0x61, 0x88, 0xA1, 0x58] 0]
   \<and> (length bs = 6 \<longrightarrow>
        (let p = drop 2 (baseline_frame (take 3 bs) (drop 3 bs))
         in drop 2 (baseline_frame (take 3 p) (drop 3 p))) = bs)
   \<and> (fst (ReadBaseline d0 s0) = Value rb \<longrightarrow>
        (\<exists>r b. Bus (i2c d0) (bus s0) (Addr (i2c d0)) [0x20, 0x15] 6 = (Inr r, b) \<and> rb = fill 6 r)
        \<and> trace (snd (SetBaseline d \<lparr>elems = rb, room = rm\<rparr> s)) =
            trace s @ [EvTx (Addr (i2c d)) [0x20, 0x03] 0,
                       EvTx (Addr (i2c d))
                         [0x20, 0x1E, rb ! 3, rb ! 4, rb ! 5, rb ! 0, rb ! 1, rb ! 2] 0])"
proof (intro conjI impI)
  assume h: "length (elems bl) = 6 \<and> checkCRC8 (take 3 (elems bl)) \<and> checkCRC8 (drop 3 (elems bl))"
  then have "trace (snd (SetBaseline d bl s)) =
           trace s @ [EvTx (Addr (i2c d)) [0x20, 0x03] 0,
                      EvTx (Addr (i2c d)) ([0x20, 0x1e] @ drop 3 (elems bl) @ take 3 (elems bl)) 0]"
    using SetBaseline_6_trace by blast
  moreover have "[0x20, 0x1e] @ drop 3 (elems bl) @ take 3 (elems bl) =
      [0x20, 0x1E, elems bl ! 3, elems bl ! 4, elems bl ! 5, elems bl ! 0, elems bl ! 1, elems bl ! 2]"
    using h frame6 by blast
  ultimately show "trace (snd (SetBaseline d bl s)) =
        trace s @ [EvTx (Addr (i2c d)) [0x20, 0x03] 0,
                   EvTx (Addr (i2c d))
                     [0x20, 0x1E, elems bl ! 3, elems bl ! 4, elems bl ! 5,
                      elems bl ! 0, elems bl ! 1, elems bl ! 2] 0]"
    by (simp only:)
next
  show "trace (snd (SetBaseline (sgp_dev [] 0 0) GoodBaseline (world0 [] (\<lambda>p. None) (\<lambda>n. 0)))) =
        [EvTx 0x58 [0x20, 0x03] 0, EvTx 0x58 [0x20, 0x1E, 0x8D, 0xC4, 0x61, 0x88, 0xA1, 0x58] 0]"
    using SetBaseline_6_trace [OF GoodBaseline_facts, of "sgp_dev [] 0 0" "world0 [] (\<lambda>p. None) (\<lambda>n. 0)"]
    by (simp add: sgp_dev_def world0_def SGP30_ADDR_def GoodBaseline_def GoodBaselineData_def)
next
  assume "length bs = 6"
  then show "(let p = drop 2 (baseline_frame (take 3 bs) (drop 3 bs))
         in drop 2 (baseline_frame (take 3 p) (drop 3 p))) = bs"
    by (rule swap_twice)
next
  assume v: "fst (ReadBaseline d0 s0) = Value rb"
  show "\<exists>r b. Bus (i2c d0) (bus s0) (Addr (i2c d0)) [0x20, 0x15] 6 = (Inr r, b) \<and> rb = fill 6 r"
    using ReadBaseline_Value [OF v] by blast
  have f: "length rb = 6" "checkCRC8 (take 3 rb)" "checkCRC8 (drop 3 rb)"
    using ReadBaseline_Value [OF v] by blast+
  have "trace (snd (SetBaseline d \<lparr>elems = rb, room = rm\<rparr> s)) =
           trace s @ [EvTx (Addr (i2c d)) [0x20, 0x03] 0,
                      EvTx (Addr (i2c d)) ([0x20, 0x1e] @ drop 3 rb @ take 3 rb) 0]"
    using SetBaseline_6_trace [of "\<lparr>elems = rb, room = rm\<rparr>" d s] f by simp
  then show "trace (snd (SetBaseline d \<lparr>elems = rb, room = rm\<rparr> s)) =
            trace s @ [EvTx (Addr (i2c d)) [0x20, 0x03] 0,
                       EvTx (Addr (i2c d))
                         [0x20, 0x1E, rb ! 3, rb ! 4, rb ! 5, rb ! 0, rb ! 1, rb ! 2] 0]"
    using frame6 [OF f(1)] by (simp only:)
qed

lemma read_then_set_run:
  "fst (ReadBaseline (sgp_dev [] 0 0) (world0 [(0x58, [0x20, 0x15], GoodBaselineData)] (\<lambda>p. None) (\<lambda>n. 0)))
     = Value GoodBaselineData"
  by code_simp

theorem SetBaseline_swaps_groups_witness:
  "length (elems GoodBaseline) = 6
   \<and> checkCRC8 (take 3 (elems GoodBaseline)) \<and> checkCRC8 (drop 3 (elems GoodBaseline))
   \<and> fst (ReadBaseline (sgp_dev [] 0 0) (world0 [(0x58, [0x20, 0x15], GoodBaselineData)] (\<lambda>p. None) (\<lambda>n. 0)))
     = Value GoodBaselineData
   \<and> trace (snd (SetBaseline (sgp_dev [] 0 0) \<lparr>elems = GoodBaselineData, room = []\<rparr>
        (world0 [] (\<lambda>p. None) (\<lambda>n. 0)))) =
       [EvTx 0x58 [0x20, 0x03] 0, EvTx 0x58 [0x20, 0x1E, 0x8D, 0xC4, 0x61, 0x88, 0xA1, 0x58] 0]"
  using SetBaseline_swaps_groups
    [of GoodBaseline "sgp_dev [] 0 0" "world0 [] (\<lambda>p. None) (\<lambda>n. 0)" GoodBaselineData
        "sgp_dev [] 0 0" "world0 [(0x58, [0x20, 0x15], GoodBaselineData)] (\<lambda>p. None) (\<lambda>n. 0)"
        GoodBaselineData "[]"]
    read_then_set_run GoodBaseline_facts
  by (simp add: sgp_dev_def world0_def SGP30_ADDR_def GoodBaselineData_def)

section \<open>Replies and their groups\<close>

lemma autosave_Value_iff:
  "is_Value (fst (autosave d s (Value v))) \<longleftrightarrow>
     (\<exists>rb b3. Bus (i2c d) (bus s) (Addr (i2c d)) [0x20, 0x15] 6 = (Inr rb, b3)
        \<and> checkCRC8 (sub (fill 6 rb) 0 3) \<and> checkCRC8 (sub (fill 6 rb) 3 6))"
  by (auto simp: autosave_def time_Now_def ReadBaseline_def Tx_def Let_def
      split: prod.splits sum.splits if_splits outcome.splits)

lemma ReadAirQuality_groups:
  assumes t1: "Bus (i2c d) (bus s) (Addr (i2c d)) [0x20, 0x08] 0 = (Inr r0, b1)"
    and t2: "Bus (i2c d) b1 (Addr (i2c d)) [] 6 = (Inr r, b2)"
    and len: "length r = 6"
  shows "\<not> checkCRC8 (sub r 0 3) \<Longrightarrow>
           fst (ReadAirQuality d s) = Failure (CRC8Error ''sgp30: read air quality word 1'' (sub r 0 3))"
    and "checkCRC8 (sub r 0 3) \<Longrightarrow> \<not> checkCRC8 (sub r 3 6) \<Longrightarrow>
           fst (ReadAirQuality d s) = Failure (CRC8Error ''sgp30: read air quality word 2'' (sub r 3 6))"
    and "is_Value (fst (ReadAirQuality d s)) \<Longrightarrow> checkCRC8 (sub r 0 3) \<and> checkCRC8 (sub r 3 6)"
    and "checkCRC8 (sub r 0 3) \<Longrightarrow> checkCRC8 (sub r 3 6) \<Longrightarrow> \<not> due d s \<Longrightarrow>
           is_Value (fst (ReadAirQuality d s))"
    and "checkCRC8 (sub r 0 3) \<Longrightarrow> checkCRC8 (sub r 3 6) \<Longrightarrow> due d s \<Longrightarrow>
           is_Value (fst (ReadAirQuality d s)) \<longleftrightarrow>
             (\<exists>rb b3. Bus (i2c d) b2 (Addr (i2c d)) [0x20, 0x15] 6 = (Inr rb, b3)
                \<and> checkCRC8 (sub (fill 6 rb) 0 3) \<and> checkCRC8 (sub (fill 6 rb) 3 6))"
proof -
  note eq = ReadAirQuality_ok [OF t1 t2, unfolded fill_exact [OF len]]
  show "\<not> checkCRC8 (sub r 0 3) \<Longrightarrow>
           fst (ReadAirQuality d s) = Failure (CRC8Error ''sgp30: read air quality word 1'' (sub r 0 3))"
    unfolding eq by (simp add: Let_def)
  show "checkCRC8 (sub r 0 3) \<Longrightarrow> \<not> checkCRC8 (sub r 3 6) \<Longrightarrow>
           fst (ReadAirQuality d s) = Failure (CRC8Error ''sgp30: read air quality word 2'' (sub r 3 6))"
    unfolding eq by (simp add: Let_def)
  show "is_Value (fst (ReadAirQuality d s)) \<Longrightarrow> checkCRC8 (sub r 0 3) \<and> checkCRC8 (sub r 3 6)"
    unfolding eq by (auto simp: Let_def split: if_splits)
  show "checkCRC8 (sub r 0 3) \<Longrightarrow> checkCRC8 (sub r 3 6) \<Longrightarrow> \<not> due d s \<Longrightarrow>
           is_Value (fst (ReadAirQuality d s))"
    unfolding eq by (simp add: Let_def)
  show "checkCRC8 (sub r 0 3) \<Longrightarrow> checkCRC8 (sub r 3 6) \<Longrightarrow> due d s \<Longrightarrow>
           is_Value (fst (ReadAirQuality d s)) \<longleftrightarrow>
             (\<exists>rb b3. Bus (i2c d) b2 (Addr (i2c d)) [0x20, 0x15] 6 = (Inr rb, b3)
                \<and> checkCRC8 (sub (fill 6 rb) 0 3) \<and> checkCRC8 (sub (fill 6 rb) 3 6))"
    unfolding eq by (simp add: Let_def autosave_Value_iff)
qed

text \<open>
  C9, as stated: \<open>ReadAirQuality\<close> returns a value exactly when both groups of its reply
  pass CRC-8.  With a save due and a baseline reply that fails CRC-8, both groups of the
  air-quality reply pass and the call still returns an error.
\<close>

theorem ReadAirQuality_groups_pass_yet_error_counterexample:
  "checkCRC8 (sub GoodAirQualityData 0 3) \<and> checkCRC8 (sub GoodAirQualityData 3 6)
   \<and> fst (ReadAirQuality (sgp_dev ''baseline'' 0 0)
        (world0 [(0x58, [0x20, 0x08], []), (0x58, [], GoodAirQualityData),
                 (0x58, [0x20, 0x15], BadBaselineData)] (\<lambda>p. None) (\<lambda>n. 1000 + int n)))
     = Failure (Errorf ''sgp30: Error while reading baseline''
                  (CRC8Error ''sgp30: baseline word 1'' [0, 0, 0]))"
  by code_simp

text \<open>
  C9, amended.  For a reply delivered without bus error, \<open>GetSerialNumber\<close> (3 groups),
  \<open>GetFeatures\<close> (1 group) and \<open>ReadBaseline\<close> (2 groups) return a value exactly when
  every group passes CRC-8, and otherwise the error that names the first failing group
  and carries its bytes.  \<open>ReadAirQuality\<close> (2 groups) returns the error naming the first
  failing group likewise; it returns a value exactly when both groups pass and, if a save
  of the baseline is due, the Read-Baseline exchange that follows also succeeds with both
  of its groups passing.
\<close>

theorem replies_valid_iff_all_groups_pass:
  "(Bus (i2c d) (bus s) (Addr (i2c d)) [0x36, 0x82] 9 = (Inr r, b) \<and> length r = 9 \<longrightarrow>
      (is_Value (fst (GetSerialNumber d s)) \<longleftrightarrow>
         checkCRC8 (sub r 0 3) \<and> checkCRC8 (sub r 3 6) \<and> checkCRC8 (sub r 6 9))
    \<and> (\<not> checkCRC8 (sub r 0 3) \<longrightarrow>
         fst (GetSerialNumber d s) = Failure (CRC8Error ''sgp30: serial number word 1'' (sub r 0 3)))
    \<and> (checkCRC8 (sub r 0 3) \<and> \<not> checkCRC8 (sub r 3 6) \<longrightarrow>
         fst (GetSerialNumber d s) = Failure (CRC8Error ''sgp30: serial number word 2'' (sub r 3 6)))
    \<and> (checkCRC8 (sub r 0 3) \<and> checkCRC8 (sub r 3 6) \<and> \<not> checkCRC8 (sub r 6 9) \<longrightarrow>
         fst (GetSerialNumber d s) = Failure (CRC8Error ''sgp30: serial number word 3'' (sub r 6 9))))
   \<and> (Bus (i2c d) (bus sf) (Addr (i2c d)) [0x20, 0x2f] 3 = (Inr rf, bf) \<and> length rf = 3 \<longrightarrow>
      (is_Value (fst (GetFeatures d sf)) \<longleftrightarrow> checkCRC8 (sub rf 0 3))
    \<and> (\<not> checkCRC8 (sub rf 0 3) \<longrightarrow>
         fst (GetFeatures d sf) = Failure (CRC8Error ''sgp30: features'' (sub rf 0 3))))
   \<and> (Bus (i2c d) (bus sb) (Addr (i2c d)) [0x20, 0x15] 6 = (Inr rb, bb) \<and> length rb = 6 \<longrightarrow>
      (is_Value (fst (ReadBaseline d sb)) \<longleftrightarrow> checkCRC8 (sub rb 0 3) \<and> checkCRC8 (sub rb 3 6))
    \<and> (\<not> checkCRC8 (sub rb 0 3) \<longrightarrow>
         fst (ReadBaseline d sb) = Failure (CRC8Error ''sgp30: baseline word 1'' (sub rb 0 3)))
    \<and> (checkCRC8 (sub rb 0 3) \<and> \<not> checkCRC8 (sub rb 3 6) \<longrightarrow>
         fst (ReadBaseline d sb) = Failure (CRC8Error ''sgp30: baseline word 2'' (sub rb 3 6))))
   \<and> (Bus (i2c d) (bus sa) (Addr (i2c d)) [0x20, 0x08] 0 = (Inr r0, b1)
       \<and> Bus (i2c d) b1 (Addr (i2c d)) [] 6 = (Inr ra, b2) \<and> length ra = 6 \<longrightarrow>
      (is_Value (fst (ReadAirQuality d sa)) \<longleftrightarrow>
         checkCRC8 (sub ra 0 3) \<and> checkCRC8 (sub ra 3 6)
         \<and> (due d sa \<longrightarrow>
              (\<exists>rx b3. Bus (i2c d) b2 (Addr (i2c d)) [0x20, 0x15] 6 = (Inr rx, b3)
                 \<and> checkCRC8 (sub (fill 6 rx) 0 3) \<and> checkCRC8 (sub (fill 6 rx) 3 6))))
    \<and> (\<not> checkCRC8 (sub ra 0 3) \<longrightarrow>
         fst (ReadAirQuality d sa) = Failure (CRC8Error ''sgp30: read air quality word 1'' (sub ra 0 3)))
    \<and> (checkCRC8 (sub ra 0 3) \<and> \<not> checkCRC8 (sub ra 3 6) \<longrightarrow>
         fst (ReadAirQuality d sa) = Failure (CRC8Error ''sgp30: read air quality word 2'' (sub ra 3 6))))"
proof (intro conjI)
  show "Bus (i2c d) (bus s) (Addr (i2c d)) [0x36, 0x82] 9 = (Inr r, b) \<and> length r = 9 \<longrightarrow>
      (is_Value (fst (GetSerialNumber d s)) \<longleftrightarrow>
         checkCRC8 (sub r 0 3) \<and> checkCRC8 (sub r 3 6) \<and> checkCRC8 (sub r 6 9))
    \<and> (\<not> checkCRC8 (sub r 0 3) \<longrightarrow>
         fst (GetSerialNumber d s) = Failure (CRC8Error ''sgp30: serial number word 1'' (sub r 0 3)))
    \<and> (checkCRC8 (sub r 0 3) \<and> \<not> checkCRC8 (sub r 3 6) \<longrightarrow>
         fst (GetSerialNumber d s) = Failure (CRC8Error ''sgp30: serial number word 2'' (sub r 3 6)))
    \<and> (checkCRC8 (sub r 0 3) \<and> checkCRC8 (sub r 3 6) \<and> \<not> checkCRC8 (sub r 6 9) \<longrightarrow>
         fst (GetSerialNumber d s) = Failure (CRC8Error ''sgp30: serial number word 3'' (sub r 6 9)))"
    using GetSerialNumber_ok [of d s r b] by simp
  show "Bus (i2c d) (bus sf) (Addr (i2c d)) [0x20, 0x2f] 3 = (Inr rf, bf) \<and> length rf = 3 \<longrightarrow>
      (is_Value (fst (GetFeatures d sf)) \<longleftrightarrow> checkCRC8 (sub rf 0 3))
    \<and> (\<not> checkCRC8 (sub rf 0 3) \<longrightarrow>
         fst (GetFeatures d sf) = Failure (CRC8Error ''sgp30: features'' (sub rf 0 3)))"
    using GetFeatures_ok [of d sf rf bf] by simp
  show "Bus (i2c d) (bus sb) (Addr (i2c d)) [0x20, 0x15] 6 = (Inr rb, bb) \<and> length rb = 6 \<longrightarrow>
      (is_Value (fst (ReadBaseline d sb)) \<longleftrightarrow> checkCRC8 (sub rb 0 3) \<and> checkCRC8 (sub rb 3 6))
    \<and> (\<not> checkCRC8 (sub rb 0 3) \<longrightarrow>
         fst (ReadBaseline d sb) = Failure (CRC8Error ''sgp30: baseline word 1'' (sub rb 0 3)))
    \<and> (checkCRC8 (sub rb 0 3) \<and> \<not> checkCRC8 (sub rb 3 6) \<longrightarrow>
         fst (ReadBaseline d sb) = Failure (CRC8Error ''sgp30: baseline word 2'' (sub rb 3 6)))"
    using ReadBaseline_ok [of d sb rb bb] by simp
  show "Bus (i2c d) (bus sa) (Addr (i2c d)) [0x20, 0x08] 0 = (Inr r0, b1)
       \<and> Bus (i2c d) b1 (Addr (i2c d)) [] 6 = (Inr ra, b2) \<and> length ra = 6 \<longrightarrow>
      (is_Value (fst (ReadAirQuality d sa)) \<longleftrightarrow>
         checkCRC8 (sub ra 0 3) \<and> checkCRC8 (sub ra 3 6)
         \<and> (due d sa \<longrightarrow>
              (\<exists>rx b3. Bus (i2c d) b2 (Addr (i2c d)) [0x20, 0x15] 6 = (Inr rx, b3)
                 \<and> checkCRC8 (sub (fill 6 rx) 0 3) \<and> checkCRC8 (sub (fill 6 rx) 3 6))))
    \<and> (\<not> checkCRC8 (sub ra 0 3) \<longrightarrow>
         fst (ReadAirQuality d sa) = Failure (CRC8Error ''sgp30: read air quality word 1'' (sub ra 0 3)))
    \<and> (checkCRC8 (sub ra 0 3) \<and> \<not> checkCRC8 (sub ra 3 6) \<longrightarrow>
         fst (ReadAirQuality d sa) = Failure (CRC8Error ''sgp30: read air quality word 2'' (sub ra 3 6)))"
    using ReadAirQuality_groups [of d sa r0 b1 ra b2] by blast
qed

lemma good_replies_pass:
  "checkCRC8 (sub GoodSerialNumber 0 3)" "checkCRC8 (sub GoodSerialNumber 3 6)"
  "checkCRC8 (sub GoodSerialNumber 6 9)" "checkCRC8 (sub GoodFeaturesData 0 3)"
  "checkCRC8 (sub GoodBaselineData 0 3)" "checkCRC8 (sub GoodBaselineData 3 6)"
  "checkCRC8 (sub GoodAirQualityData 0 3)" "checkCRC8 (sub GoodAirQualityData 3 6)"
  by (simp_all add: sub_def GoodSerialNumber_def GoodFeaturesData_def GoodBaselineData_def
      GoodAirQualityData_def crc_serial_1 crc_serial_2 crc_serial_3 crc_features crc_baseline_1
      crc_baseline_2 crc_air_1 crc_air_2)

lemma good_replies_length:
  "length GoodSerialNumber = 9" "length GoodFeaturesData = 3" "length GoodBaselineData = 6"
  "length GoodAirQualityData = 6"
  by (simp_all add: GoodSerialNumber_def GoodFeaturesData_def GoodBaselineData_def
      GoodAirQualityData_def)

lemma not_due_without_path: "\<not> due (sgp_dev [] iv t) s"
  by (simp add: due_def sgp_dev_def)

theorem replies_valid_iff_all_groups_pass_witness:
  "is_Value (fst (GetSerialNumber (sgp_dev [] 0 0)
       (world0 [(0x58, [0x36, 0x82], GoodSerialNumber)] (\<lambda>p. None) (\<lambda>n. 0))))
   \<and> is_Value (fst (GetFeatures (sgp_dev [] 0 0)
       (world0 [(0x58, [0x20, 0x2f], GoodFeaturesData)] (\<lambda>p. None) (\<lambda>n. 0))))
   \<and> is_Value (fst (ReadBaseline (sgp_dev [] 0 0)
       (world0 [(0x58, [0x20, 0x15], GoodBaselineData)] (\<lambda>p. None) (\<lambda>n. 0))))
   \<and> is_Value (fst (ReadAirQuality (sgp_dev [] 0 0)
       (world0 [(0x58, [0x20, 0x08], []), (0x58, [], GoodAirQualityData)] (\<lambda>p. None) (\<lambda>n. 0))))"
  using replies_valid_iff_all_groups_pass
    [of "sgp_dev [] 0 0"
        "world0 [(0x58, [0x36, 0x82], GoodSerialNumber)] (\<lambda>p. None) (\<lambda>n. 0)" GoodSerialNumber "[]"
        "world0 [(0x58, [0x20, 0x2f], GoodFeaturesData)] (\<lambda>p. None) (\<lambda>n. 0)" GoodFeaturesData "[]"
        "world0 [(0x58, [0x20, 0x15], GoodBaselineData)] (\<lambda>p. None) (\<lambda>n. 0)" GoodBaselineData "[]"
        "world0 [(0x58, [0x20, 0x08], []), (0x58, [], GoodAirQualityData)] (\<lambda>p. None) (\<lambda>n. 0)"
        "[]" "[(0x58, [], GoodAirQualityData)]" GoodAirQualityData "[]"]
    good_replies_pass good_replies_length not_due_without_path
  by (simp add: sgp_dev_def world0_def SGP30_ADDR_def)

end
